theory Spec2Isabelle
  imports Main "HOL-Library.AList" "HOL-Library.Sublist"
begin

section \<open>Python values\<close>

text \<open>
  The operator works on untyped, JSON-like Python data: the job configuration, the
  create-job response and the job description are dictionaries with string keys. A
  dictionary is an association list: Python dictionaries keep insertion order, a lookup
  finds the one entry of a key, and an assignment to an existing key replaces its value in
  place (\<open>AList.update\<close>). Strings are lists of code points below 256. Floats are left out.
\<close>

datatype pyval =
    PyNone
  | PyBool bool
  | PyInt int
  | PyStr string
  | PyList "pyval list"
  | PyDict "(string \<times> pyval) list"

type_synonym pydict = "(string \<times> pyval) list"

text \<open>
  Every \<open>raise\<close> of the source and every exception of a Python builtin is a value of
  this type. \<open>ValueError\<close> carries the literal that \<open>int()\<close> refused, \<open>TypeError\<close> the
  name of the offending type, \<open>KeyError\<close> the missing key, \<open>AirflowException\<close> its message.
\<close>

datatype error =
    AirflowException string
  | KeyError string
  | ValueError string
  | TypeError string

subsection \<open>Formatting: \<open>str()\<close>, \<open>repr()\<close> and f-strings\<close>

function dec_digits :: "nat \<Rightarrow> string" where
  "dec_digits n =
     (if n < 10 then [char_of (48 + n)]
      else dec_digits (n div 10) @ [char_of (48 + n mod 10)])"
  by pat_completeness auto
termination
  by (relation "measure (\<lambda>n. n)") auto

definition repr_int :: "int \<Rightarrow> string" where
  "repr_int i = (if i < 0 then CHR ''-'' # dec_digits (nat (- i)) else dec_digits (nat i))"

definition hex_digit :: "nat \<Rightarrow> char" where
  "hex_digit d = (if d < 10 then char_of (48 + d) else char_of (87 + d))"

definition printable :: "char \<Rightarrow> bool" where
  "printable c =
     (let n = (of_char c :: nat)
      in (32 \<le> n \<and> n < 127) \<or> (161 \<le> n \<and> n \<noteq> 173))"

definition repr_char :: "char \<Rightarrow> char \<Rightarrow> string" where
  "repr_char q c =
     (if c = q \<or> c = CHR 0x5C then [CHR 0x5C, c]
      else if c = CHR 0x09 then [CHR 0x5C, CHR ''t'']
      else if c = CHR 0x0A then [CHR 0x5C, CHR ''n'']
      else if c = CHR 0x0D then [CHR 0x5C, CHR ''r'']
      else if printable c then [c]
      else [CHR 0x5C, CHR ''x'',
            hex_digit ((of_char c :: nat) div 16), hex_digit ((of_char c :: nat) mod 16)])"

definition repr_str :: "string \<Rightarrow> string" where
  "repr_str s =
     (let q = (if CHR 0x27 \<in> set s \<and> CHR 0x22 \<notin> set s then CHR 0x22 else CHR 0x27)
      in q # concat (map (repr_char q) s) @ [q])"

fun py_repr :: "pyval \<Rightarrow> string"
  and repr_elems :: "pyval list \<Rightarrow> string"
  and repr_items :: "(string \<times> pyval) list \<Rightarrow> string" where
  "py_repr PyNone = ''None''"
| "py_repr (PyBool b) = (if b then ''True'' else ''False'')"
| "py_repr (PyInt i) = repr_int i"
| "py_repr (PyStr s) = repr_str s"
| "py_repr (PyList xs) = ''['' @ repr_elems xs @ '']''"
| "py_repr (PyDict kvs) = ''{'' @ repr_items kvs @ ''}''"
| "repr_elems [] = []"
| "repr_elems [x] = py_repr x"
| "repr_elems (x # y # ys) = py_repr x @ '', '' @ repr_elems (y # ys)"
| "repr_items [] = []"
| "repr_items [(k, v)] = repr_str k @ '': '' @ py_repr v"
| "repr_items ((k, v) # kv # kvs) =
     repr_str k @ '': '' @ py_repr v @ '', '' @ repr_items (kv # kvs)"

text \<open>
  What \<open>f"{v}"\<close> puts into the string: \<open>format(v)\<close>, which is \<open>str(v)\<close>; a string
  formats as itself, every other value of this model as its \<open>repr\<close>.
\<close>

fun py_format :: "pyval \<Rightarrow> string" where
  "py_format (PyStr s) = s"
| "py_format v = py_repr v"

subsection \<open>The builtin \<open>int()\<close>\<close>

definition is_space :: "char \<Rightarrow> bool" where
  "is_space c = ((of_char c :: nat) \<in> {9, 10, 11, 12, 13, 28, 29, 30, 31, 32, 133, 160})"

definition is_digit :: "char \<Rightarrow> bool" where
  "is_digit c = (48 \<le> (of_char c :: nat) \<and> (of_char c :: nat) \<le> 57)"

definition strip :: "string \<Rightarrow> string" where
  "strip s = rev (dropWhile is_space (rev (dropWhile is_space s)))"

text \<open>
  The digits of a decimal literal, most significant first, with single underscores allowed
  between two digits; \<open>None\<close> when the text is not such a literal.
\<close>

fun literal_digits :: "string \<Rightarrow> nat list option" where
  "literal_digits [] = None"
| "literal_digits [c] = (if is_digit c then Some [of_char c - 48] else None)"
| "literal_digits (c # d # cs) =
     (if \<not> is_digit c then None
      else if d = CHR ''_'' then map_option ((#) (of_char c - 48)) (literal_digits cs)
      else map_option ((#) (of_char c - 48)) (literal_digits (d # cs)))"

definition digits_value :: "nat list \<Rightarrow> nat" where
  "digits_value ds = foldl (\<lambda>acc d. 10 * acc + d) 0 ds"

definition int_of_str :: "string \<Rightarrow> error + int" where
  "int_of_str s =
     (let t = strip s;
          (neg, body) = (case t of
                           c # cs \<Rightarrow> if c = CHR ''-'' then (True, cs)
                                     else if c = CHR ''+'' then (False, cs)
                                     else (False, t)
                         | [] \<Rightarrow> (False, t))
      in case literal_digits body of
           None \<Rightarrow> Inl (ValueError (repr_str s))
         | Some ds \<Rightarrow> Inr (if neg then - int (digits_value ds) else int (digits_value ds)))"

fun py_int :: "pyval \<Rightarrow> error + int" where
  "py_int (PyInt i) = Inr i"
| "py_int (PyBool b) = Inr (if b then 1 else 0)"
| "py_int (PyStr s) = int_of_str s"
| "py_int PyNone = Inl (TypeError ''NoneType'')"
| "py_int (PyList xs) = Inl (TypeError ''list'')"
| "py_int (PyDict kvs) = Inl (TypeError ''dict'')"

subsection \<open>Subscription \<open>v[k]\<close> with a string key\<close>

fun py_getitem :: "pyval \<Rightarrow> string \<Rightarrow> error + pyval" where
  "py_getitem (PyDict kvs) k =
     (case map_of kvs k of None \<Rightarrow> Inl (KeyError k) | Some v \<Rightarrow> Inr v)"
| "py_getitem PyNone k = Inl (TypeError ''NoneType'')"
| "py_getitem (PyBool b) k = Inl (TypeError ''bool'')"
| "py_getitem (PyInt i) k = Inl (TypeError ''int'')"
| "py_getitem (PyStr s) k = Inl (TypeError ''str'')"
| "py_getitem (PyList xs) k = Inl (TypeError ''list'')"

section \<open>The operator\<close>

text \<open>
  The fields of a \<open>SageMakerProcessingOperator\<close>. \<open>config\<close> and \<open>aws_conn_id\<close> are
  stored by the base class's constructor, the rest by \<open>__init__\<close>.
\<close>

record operator =
  config :: pydict
  aws_conn_id :: string
  action_if_job_exists :: string
  wait_for_completion :: bool
  print_log :: bool
  check_interval :: int
  max_ingestion_time :: "int option"
  integer_fields :: "string list list"

text \<open>\<open>_create_integer_fields\<close>: the list it stores in \<open>self.integer_fields\<close>.\<close>

definition create_integer_fields :: "pydict \<Rightarrow> string list list" where
  "create_integer_fields c =
     [[''ProcessingResources'', ''ClusterConfig'', ''InstanceCount''],
      [''ProcessingResources'', ''ClusterConfig'', ''VolumeSizeInGB'']]
     @ (if map_of c ''StoppingCondition'' \<noteq> None
        then [[''StoppingCondition'', ''MaxRuntimeInSeconds'']] else [])"

text \<open>
  The three messages the operator formats; the argument is what the f-string inserts.
\<close>

definition invalid_action_message :: "string \<Rightarrow> string" where
  "invalid_action_message provided =
     ''Argument action_if_job_exists accepts only '' @ [CHR 0x27] @ ''increment''
     @ [CHR 0x27] @ '' and '' @ [CHR 0x27] @ ''fail'' @ [CHR 0x27] @ ''. ''
     @ ''Provided value: '' @ [CHR 0x27] @ provided @ [CHR 0x27] @ ''.''"

definition job_exists_message :: "string \<Rightarrow> string" where
  "job_exists_message name =
     ''A SageMaker processing job with name '' @ name @ '' already exists.''"

definition creation_failed_message :: "string \<Rightarrow> string" where
  "creation_failed_message response =
     ''Sagemaker Processing Job creation failed: '' @ response"

text \<open>
  \<open>__init__\<close>. Modelled from the spec: the constructor of the base class is missing from
  the excerpt; the task owns its JobSpec and is supplied a connection identifier (spec 3
  and 4.1), so the base constructor is taken to store \<open>config\<close> and \<open>aws_conn_id\<close> and
  return.
\<close>

definition init ::
  "pydict \<Rightarrow> string \<Rightarrow> bool \<Rightarrow> bool \<Rightarrow> int \<Rightarrow> int option \<Rightarrow> string \<Rightarrow> error + operator" where
  "init cfg conn wait plog interval max_time action =
     (if action \<notin> set [''increment'', ''fail'']
      then Inl (AirflowException (invalid_action_message action))
      else Inr \<lparr> config = cfg, aws_conn_id = conn, action_if_job_exists = action,
                 wait_for_completion = wait, print_log = plog, check_interval = interval,
                 max_ingestion_time = max_time,
                 integer_fields = create_integer_fields cfg \<rparr>)"

subsection \<open>Collaborators\<close>

text \<open>
  Modelled from the spec: the hooks the operator calls are missing from the excerpt; the
  spec (6) gives their interfaces only. Each is a function from the arguments of the call
  to what the call does: raise (\<open>Inl\<close>) or return (\<open>Inr\<close>).
  \<open>iam_expand_role\<close> stands for \<open>AwsBaseHook(aws_conn_id, client_type='iam').expand_role\<close>,
  the other three for the methods of \<open>self.hook\<close>. The hooks are taken not to modify the
  configuration they are handed.
\<close>

record hooks =
  iam_expand_role :: "string \<Rightarrow> pyval \<Rightarrow> error + pyval"
  find_processing_job_by_name :: "pyval \<Rightarrow> error + bool"
  create_processing_job :: "pydict \<Rightarrow> bool \<Rightarrow> int \<Rightarrow> int option \<Rightarrow> error + pyval"
  describe_processing_job :: "pyval \<Rightarrow> error + pyval"

subsection \<open>Normalization\<close>

text \<open>
  Modelled from the spec: \<open>parse_integer\<close>, \<open>parse_config_integers\<close> and
  \<open>preprocess_config\<close> belong to the base class \<open>SageMakerBaseOperator\<close>, which is missing
  from the excerpt. The spec (4.1): for each integer-field path present in the
  configuration, the value at that path is replaced by its integer cast; a path that is
  not present is left untouched, with no error and no insertion; then the identity
  reference, if present, is resolved. A path is present when every key but the last
  leads to a mapping holding the next key. The configuration is mutated in place, so a
  cast that raises leaves the fields cast before it as they are: a normalization returns
  the configuration it leaves behind, and the exception when there is one.
\<close>

fun parse_integer :: "pydict \<Rightarrow> string list \<Rightarrow> error + pydict" where
  "parse_integer c [] = Inr c"
| "parse_integer c [k] =
     (case map_of c k of
        None \<Rightarrow> Inr c
      | Some v \<Rightarrow> (case py_int v of
                    Inl e \<Rightarrow> Inl e
                  | Inr i \<Rightarrow> Inr (AList.update k (PyInt i) c)))"
| "parse_integer c (k # k' # ks) =
     (case map_of c k of
        Some (PyDict d) \<Rightarrow> (case parse_integer d (k' # ks) of
                             Inl e \<Rightarrow> Inl e
                           | Inr d' \<Rightarrow> Inr (AList.update k (PyDict d') c))
      | _ \<Rightarrow> Inr c)"

text \<open>
  Modelled from the spec: \<open>parse_config_integers\<close> of the missing base class. The paths
  are cast in the order of the list; the first cast that raises ends the pass.
\<close>

fun parse_config_integers :: "string list list \<Rightarrow> pydict \<Rightarrow> pydict \<times> error option" where
  "parse_config_integers [] c = (c, None)"
| "parse_config_integers (field # rest) c =
     (case parse_integer c field of
        Inl e \<Rightarrow> (c, Some e)
      | Inr c' \<Rightarrow> parse_config_integers rest c')"

text \<open>\<open>expand_role\<close>, as the operator overrides it.\<close>

definition expand_role :: "hooks \<Rightarrow> operator \<Rightarrow> operator \<times> error option" where
  "expand_role h self =
     (case map_of (config self) ''RoleArn'' of
        None \<Rightarrow> (self, None)
      | Some role \<Rightarrow>
          (case iam_expand_role h (aws_conn_id self) role of
             Inl e \<Rightarrow> (self, Some e)
           | Inr arn \<Rightarrow> (self\<lparr>config := AList.update ''RoleArn'' arn (config self)\<rparr>, None)))"

text \<open>
  Modelled from the spec: \<open>preprocess_config\<close> of the missing base class, the
  normalization pass that \<open>execute\<close> starts with: the integer fields, then the role.
\<close>

definition preprocess_config :: "hooks \<Rightarrow> operator \<Rightarrow> operator \<times> error option" where
  "preprocess_config h self =
     (case parse_config_integers (integer_fields self) (config self) of
        (c, Some e) \<Rightarrow> (self\<lparr>config := c\<rparr>, Some e)
      | (c, None) \<Rightarrow> expand_role h (self\<lparr>config := c\<rparr>))"

subsection \<open>Execution\<close>

text \<open>
  The calls \<open>execute\<close> makes, in the order it makes them, each with its arguments.
\<close>

datatype call =
    Preprocess_config
  | Find_processing_job_by_name pyval
  | Create_processing_job pydict bool int "int option"
  | Describe_processing_job pyval

text \<open>
  One run of \<open>execute\<close>: the operator as the run leaves it, the calls made, and the
  value returned (\<open>Inr\<close>) or the exception raised (\<open>Inl\<close>). Logging is left out; the
  lookup of the job name inside the log call repeats one that has already succeeded.
\<close>

record run =
  after :: operator
  calls :: "call list"
  outcome :: "error + pyval"

definition execute :: "hooks \<Rightarrow> operator \<Rightarrow> run" where
  "execute h self =
     (case preprocess_config h self of
        (self', Some e) \<Rightarrow> \<lparr>after = self', calls = [Preprocess_config], outcome = Inl e\<rparr>
      | (self', None) \<Rightarrow>
     (case py_getitem (PyDict (config self')) ''ProcessingJobName'' of
        Inl e \<Rightarrow> \<lparr>after = self', calls = [Preprocess_config], outcome = Inl e\<rparr>
      | Inr processing_job_name \<Rightarrow>
     (case find_processing_job_by_name h processing_job_name of
        Inl e \<Rightarrow> \<lparr>after = self',
                  calls = [Preprocess_config, Find_processing_job_by_name processing_job_name],
                  outcome = Inl e\<rparr>
      | Inr found \<Rightarrow>
     if found then
       \<lparr>after = self',
        calls = [Preprocess_config, Find_processing_job_by_name processing_job_name],
        outcome = Inl (AirflowException
                    (job_exists_message (py_format processing_job_name)))\<rparr>
     else
     (let submitted =
            [Preprocess_config, Find_processing_job_by_name processing_job_name,
             Create_processing_job (config self') (wait_for_completion self')
               (check_interval self') (max_ingestion_time self')]
      in
     (case create_processing_job h (config self') (wait_for_completion self')
             (check_interval self') (max_ingestion_time self') of
        Inl e \<Rightarrow> \<lparr>after = self', calls = submitted, outcome = Inl e\<rparr>
      | Inr response \<Rightarrow>
     (case py_getitem response ''ResponseMetadata'' of
        Inl e \<Rightarrow> \<lparr>after = self', calls = submitted, outcome = Inl e\<rparr>
      | Inr metadata \<Rightarrow>
     (case py_getitem metadata ''HTTPStatusCode'' of
        Inl e \<Rightarrow> \<lparr>after = self', calls = submitted, outcome = Inl e\<rparr>
      | Inr status \<Rightarrow>
     if status \<noteq> PyInt 200 then
       \<lparr>after = self', calls = submitted,
        outcome = Inl (AirflowException
                    (creation_failed_message (py_format response)))\<rparr>
     else
     (case py_getitem (PyDict (config self')) ''ProcessingJobName'' of
        Inl e \<Rightarrow> \<lparr>after = self', calls = submitted, outcome = Inl e\<rparr>
      | Inr name \<Rightarrow>
     (case describe_processing_job h name of
        Inl e \<Rightarrow> \<lparr>after = self', calls = submitted @ [Describe_processing_job name],
                  outcome = Inl e\<rparr>
      | Inr description \<Rightarrow>
          \<lparr>after = self', calls = submitted @ [Describe_processing_job name],
           outcome = Inr (PyDict [(''Processing'', description)])\<rparr>)))))))))"

subsection \<open>Reading the list of calls\<close>

fun is_find :: "call \<Rightarrow> bool" where
  "is_find (Find_processing_job_by_name n) = True"
| "is_find c = False"

fun is_create :: "call \<Rightarrow> bool" where
  "is_create (Create_processing_job c w i m) = True"
| "is_create c = False"

fun is_describe :: "call \<Rightarrow> bool" where
  "is_describe (Describe_processing_job n) = True"
| "is_describe c = False"

text \<open>The calls that go to the remote platform.\<close>

definition remote_calls :: "call list \<Rightarrow> call list" where
  "remote_calls cs = filter (\<lambda>c. is_find c \<or> is_create c \<or> is_describe c) cs"

subsection \<open>A resolver that is stable on what it returns\<close>


subsection \<open>Example data\<close>

definition example_config :: pydict where
  "example_config =
     [(''ProcessingJobName'', PyStr ''job-1''),
      (''ProcessingResources'',
         PyDict [(''ClusterConfig'',
                    PyDict [(''InstanceCount'', PyStr ''2''),
                            (''VolumeSizeInGB'', PyStr ''50'')])]),
      (''RoleArn'', PyStr ''my-role'')]"

text \<open>A configuration whose instance count is not a number.\<close>

definition uncastable_config :: pydict where
  "uncastable_config =
     [(''ProcessingJobName'', PyStr ''job-2''),
      (''ProcessingResources'',
         PyDict [(''ClusterConfig'', PyDict [(''InstanceCount'', PyStr ''two'')])])]"

definition account_prefix :: string where
  "account_prefix = ''arn:aws:iam::123456789012:role/''"

text \<open>The example configuration after a normalization with either resolver below.\<close>

definition normalized_config :: pydict where
  "normalized_config =
     [(''ProcessingJobName'', PyStr ''job-1''),
      (''ProcessingResources'',
         PyDict [(''ClusterConfig'',
                    PyDict [(''InstanceCount'', PyInt 2),
                            (''VolumeSizeInGB'', PyInt 50)])]),
      (''RoleArn'', PyStr (account_prefix @ ''my-role''))]"

text \<open>The operator that \<open>__init__\<close> builds from a configuration, with the defaults.\<close>

definition example_operator :: "pydict \<Rightarrow> string \<Rightarrow> bool \<Rightarrow> operator" where
  "example_operator cfg action wait =
     \<lparr> config = cfg, aws_conn_id = ''aws_default'', action_if_job_exists = action,
       wait_for_completion = wait, print_log = True, check_interval = 30,
       max_ingestion_time = None, integer_fields = create_integer_fields cfg \<rparr>"

text \<open>
  Two resolvers. The first returns a reference that holds a slash as it is and puts the
  account prefix before any other name; the second puts the prefix before every name.
\<close>

definition slash_resolver :: "string \<Rightarrow> pyval \<Rightarrow> error + pyval" where
  "slash_resolver conn role =
     (case role of
        PyStr s \<Rightarrow> if CHR ''/'' \<in> set s then Inr (PyStr s)
                   else Inr (PyStr (account_prefix @ s))
      | _ \<Rightarrow> Inl (TypeError ''role''))"

definition prefixing_resolver :: "string \<Rightarrow> pyval \<Rightarrow> error + pyval" where
  "prefixing_resolver conn role =
     (case role of
        PyStr s \<Rightarrow> Inr (PyStr (account_prefix @ s))
      | _ \<Rightarrow> Inl (TypeError ''role''))"

definition example_response :: "int \<Rightarrow> pyval" where
  "example_response status =
     PyDict [(''ProcessingJobArn'', PyStr ''arn:job-1''),
             (''ResponseMetadata'', PyDict [(''HTTPStatusCode'', PyInt status)])]"

definition example_description :: "pyval \<Rightarrow> pyval" where
  "example_description name =
     PyDict [(''ProcessingJobName'', name), (''ProcessingJobStatus'', PyStr ''InProgress'')]"

text \<open>
  A platform that answers the existence check with \<open>found\<close> and the create call with
  the HTTP status \<open>status\<close>.
\<close>

definition example_hooks ::
  "(string \<Rightarrow> pyval \<Rightarrow> error + pyval) \<Rightarrow> bool \<Rightarrow> int \<Rightarrow> hooks" where
  "example_hooks resolver found status =
     \<lparr> iam_expand_role = resolver,
       find_processing_job_by_name = (\<lambda>name. Inr found),
       create_processing_job = (\<lambda>cfg wait interval max_time. Inr (example_response status)),
       describe_processing_job = (\<lambda>name. Inr (example_description name)) \<rparr>"

section \<open>Properties\<close>

subsection \<open>Messages\<close>

lemma sublist_invalid_action_message: "sublist a (invalid_action_message a)"
proof -
  have "invalid_action_message a =
      (''Argument action_if_job_exists accepts only '' @ [CHR 0x27] @ ''increment''
       @ [CHR 0x27] @ '' and '' @ [CHR 0x27] @ ''fail'' @ [CHR 0x27] @ ''. ''
       @ ''Provided value: '' @ [CHR 0x27]) @ a @ ([CHR 0x27] @ ''.'')"
    unfolding invalid_action_message_def by simp
  then show ?thesis
    by (metis sublist_appendI)
qed

lemma sublist_job_exists_message: "sublist n (job_exists_message n)"
  unfolding job_exists_message_def by (rule sublist_appendI)

lemma sublist_creation_failed_message: "sublist r (creation_failed_message r)"
  unfolding creation_failed_message_def by (rule sublist_append_leftI)

subsection \<open>What normalization keeps\<close>

lemma expand_role_keeps:
  "fst (expand_role h self) = self\<lparr>config := config (fst (expand_role h self))\<rparr>"
  by (simp add: expand_role_def split: option.splits sum.splits)

lemma preprocess_config_keeps:
  "fst (preprocess_config h self) = self\<lparr>config := config (fst (preprocess_config h self))\<rparr>"
proof (cases "parse_config_integers (integer_fields self) (config self)")
  case (Pair c r)
  show ?thesis
  proof (cases r)
    case None
    with Pair expand_role_keeps [of h "self\<lparr>config := c\<rparr>"] show ?thesis
      by (simp add: preprocess_config_def)
  next
    case (Some e)
    with Pair show ?thesis by (simp add: preprocess_config_def)
  qed
qed

subsection \<open>Integer fields: casting twice\<close>


lemma parse_integer_leaf:
  "parse_integer c [k] = Inr c' \<longleftrightarrow>
     (map_of c k = None \<and> c' = c) \<or>
     (\<exists>v i. map_of c k = Some v \<and> py_int v = Inr i \<and> c' = AList.update k (PyInt i) c)"
  by (auto split: option.splits sum.splits)

lemma parse_integer_inner:
  "parse_integer c (k # k' # ks) = Inr c' \<longleftrightarrow>
     ((\<forall>d. map_of c k \<noteq> Some (PyDict d)) \<and> c' = c) \<or>
     (\<exists>d d'. map_of c k = Some (PyDict d) \<and> parse_integer d (k' # ks) = Inr d'
         \<and> c' = AList.update k (PyDict d') c)"
  by (auto split: option.splits sum.splits pyval.splits)






lemma parse_integer_shapes:
  fixes p :: "string list"
  obtains "p = []" | k where "p = [k]" | k k' ks where "p = k # k' # ks"
  by (cases "([] :: pydict, p)" rule: parse_integer.cases) auto


lemma parse_integer_dom: "parse_integer c p = Inr c' \<Longrightarrow> dom (map_of c') = dom (map_of c)"
  by (cases p rule: parse_integer_shapes)
     (auto simp del: parse_integer.simps(2,3)
           simp add: parse_integer_leaf parse_integer_inner AList.update_conv'
           split: if_splits)





lemma parse_config_integers_dom:
  "parse_config_integers fs c = (c', r) \<Longrightarrow> dom (map_of c') = dom (map_of c)"
proof (induction fs arbitrary: c)
  case Nil
  then show ?case by simp
next
  case (Cons f fs)
  show ?case
  proof (cases "parse_integer c f")
    case (Inl e)
    with Cons.prems show ?thesis by simp
  next
    case (Inr c1)
    with Cons.prems have "parse_config_integers fs c1 = (c', r)" by simp
    then have "dom (map_of c') = dom (map_of c1)" by (rule Cons.IH)
    also from Inr have "\<dots> = dom (map_of c)" by (rule parse_integer_dom)
    finally show ?thesis .
  qed
qed




lemma preprocess_config_dom:
  "dom (map_of (config (fst (preprocess_config h self)))) = dom (map_of (config self))"
proof -
  obtain c r where first: "parse_config_integers (integer_fields self) (config self) = (c, r)"
    by (cases "parse_config_integers (integer_fields self) (config self)")
  then have c: "dom (map_of c) = dom (map_of (config self))"
    by (rule parse_config_integers_dom)
  have "dom (map_of (config (fst (expand_role h (self\<lparr>config := c\<rparr>))))) = dom (map_of c)"
    by (auto simp: expand_role_def AList.update_conv' split: option.splits sum.splits)
  with first c show ?thesis
    by (cases r) (simp_all add: preprocess_config_def)
qed

subsection \<open>The examples, evaluated\<close>

lemma int_of_str_examples: "int_of_str ''2'' = Inr 2" "int_of_str ''50'' = Inr 50"
  by (simp_all add: int_of_str_def strip_def is_space_def is_digit_def digits_value_def)

lemma preprocess_example:
  "preprocess_config (example_hooks slash_resolver found status)
       (example_operator example_config action wait)
     = ((example_operator example_config action wait)\<lparr>config := normalized_config\<rparr>, None)"
  by (simp add: preprocess_config_def expand_role_def example_hooks_def example_operator_def
        example_config_def normalized_config_def create_integer_fields_def slash_resolver_def
        account_prefix_def int_of_str_examples)

lemma preprocess_example_prefixing:
  "preprocess_config (example_hooks prefixing_resolver found status)
       (example_operator example_config action wait)
     = ((example_operator example_config action wait)\<lparr>config := normalized_config\<rparr>, None)"
  by (simp add: preprocess_config_def expand_role_def example_hooks_def example_operator_def
        example_config_def normalized_config_def create_integer_fields_def prefixing_resolver_def
        account_prefix_def int_of_str_examples)

lemma preprocess_uncastable:
  "preprocess_config h (example_operator uncastable_config action wait)
     = (example_operator uncastable_config action wait, Some (ValueError (repr_str ''two'')))"
  by (simp add: preprocess_config_def example_operator_def uncastable_config_def
        create_integer_fields_def int_of_str_def strip_def is_space_def is_digit_def)

lemma preprocess_empty:
  "preprocess_config h (example_operator [] action wait)
     = (example_operator [] action wait, None)"
  by (simp add: preprocess_config_def expand_role_def example_operator_def
        create_integer_fields_def)

lemma example_hooks_calls:
  "find_processing_job_by_name (example_hooks resolver found status) name = Inr found"
  "create_processing_job (example_hooks resolver found status) cfg w i m
     = Inr (example_response status)"
  "describe_processing_job (example_hooks resolver found status) name
     = Inr (example_description name)"
  by (simp_all add: example_hooks_def)

lemma example_response_status:
  "py_getitem (example_response status) ''ResponseMetadata''
     = Inr (PyDict [(''HTTPStatusCode'', PyInt status)])"
  by (simp add: example_response_def)

lemma example_response_format:
  "py_format (example_response 500)
     = ''{'ProcessingJobArn': 'arn:job-1', 'ResponseMetadata': {'HTTPStatusCode': 500}}''"
  by code_simp

lemma normalized_job_name: "map_of normalized_config ''ProcessingJobName'' = Some (PyStr ''job-1'')"
  by (simp add: normalized_config_def)

section \<open>The claims\<close>

text \<open>
  Claim C1: when the platform reports that a job with the configured name exists and the
  policy is \<open>increment\<close>, the guard takes no action and the run goes on to the create
  call. The source does not do this: \<open>execute\<close> never reads \<open>action_if_job_exists\<close> and
  raises whenever the job is found. The run below is the default policy on a configuration
  named \<open>job-1\<close>, with a platform that reports the job as existing: it raises the
  duplicate-job error and makes no create call.
\<close>

theorem execute_increment_raises_on_existing_job:
  "init example_config ''aws_default'' True True 30 None ''increment''
     = Inr (example_operator example_config ''increment'' True)
   \<and> outcome (execute (example_hooks slash_resolver True 200)
                (example_operator example_config ''increment'' True))
     = Inl (AirflowException ''A SageMaker processing job with name job-1 already exists.'')
   \<and> filter is_create (calls (execute (example_hooks slash_resolver True 200)
                (example_operator example_config ''increment'' True))) = []"
proof -
  have "init example_config ''aws_default'' True True 30 None ''increment''
     = Inr (example_operator example_config ''increment'' True)"
    by (simp add: init_def example_operator_def)
  then show ?thesis
    by (simp add: execute_def preprocess_example normalized_job_name example_hooks_calls
          job_exists_message_def)
qed

text \<open>
  Claim C2: with the policy \<open>fail\<close> and a platform that reports a job of the configured
  name, \<open>execute\<close> raises the duplicate-job error and makes no create call. The run has
  reached the existence check: normalization has returned and the configuration holds a
  job name.
\<close>

theorem execute_fail_on_existing_job:
  assumes "action_if_job_exists self = ''fail''"
    and "preprocess_config h self = (self', None)"
    and "map_of (config self') ''ProcessingJobName'' = Some name"
    and "find_processing_job_by_name h name = Inr True"
  shows "outcome (execute h self) =
           Inl (AirflowException (job_exists_message (py_format name)))
       \<and> calls (execute h self) = [Preprocess_config, Find_processing_job_by_name name]
       \<and> filter is_create (calls (execute h self)) = []"
  using assms by (simp add: execute_def)

theorem execute_fail_on_existing_job_witness:
  "action_if_job_exists (example_operator example_config ''fail'' True) = ''fail''
   \<and> preprocess_config (example_hooks slash_resolver True 200)
        (example_operator example_config ''fail'' True)
       = ((example_operator example_config ''fail'' True)\<lparr>config := normalized_config\<rparr>, None)
   \<and> find_processing_job_by_name (example_hooks slash_resolver True 200) (PyStr ''job-1'')
       = Inr True
   \<and> outcome (execute (example_hooks slash_resolver True 200)
                (example_operator example_config ''fail'' True))
       = Inl (AirflowException ''A SageMaker processing job with name job-1 already exists.'')
   \<and> calls (execute (example_hooks slash_resolver True 200)
                (example_operator example_config ''fail'' True))
       = [Preprocess_config, Find_processing_job_by_name (PyStr ''job-1'')]"
proof -
  let ?h = "example_hooks slash_resolver True 200"
  let ?self = "example_operator example_config ''fail'' True"
  have a: "action_if_job_exists ?self = ''fail''"
    by (simp add: example_operator_def)
  have p: "preprocess_config ?h ?self = (?self\<lparr>config := normalized_config\<rparr>, None)"
    by (rule preprocess_example)
  have n: "map_of (config (?self\<lparr>config := normalized_config\<rparr>)) ''ProcessingJobName''
             = Some (PyStr ''job-1'')"
    by (simp add: normalized_job_name)
  have f: "find_processing_job_by_name ?h (PyStr ''job-1'') = Inr True"
    by (rule example_hooks_calls)
  from execute_fail_on_existing_job [OF a p n f] a p f show ?thesis
    by (simp add: job_exists_message_def)
qed

text \<open>
  Claim C3: when the create call returns a response whose HTTP status code is not 200,
  \<open>execute\<close> raises the submission error, whose message ends with the formatted
  response, and returns nothing: no describe call is made. The operator is arbitrary, so
  this holds for both values of \<open>wait_for_completion\<close>.
\<close>

theorem execute_submission_error:
  assumes "preprocess_config h self = (self', None)"
    and "map_of (config self') ''ProcessingJobName'' = Some name"
    and "find_processing_job_by_name h name = Inr False"
    and "create_processing_job h (config self') (wait_for_completion self')
           (check_interval self') (max_ingestion_time self') = Inr response"
    and "py_getitem response ''ResponseMetadata'' = Inr metadata"
    and "py_getitem metadata ''HTTPStatusCode'' = Inr status"
    and "status \<noteq> PyInt 200"
  shows "outcome (execute h self) =
           Inl (AirflowException (creation_failed_message (py_format response)))
       \<and> sublist (py_format response) (creation_failed_message (py_format response))
       \<and> filter is_describe (calls (execute h self)) = []"
  using assms sublist_creation_failed_message [of "py_format response"]
  by (simp add: execute_def)

theorem execute_submission_error_witness:
  "find_processing_job_by_name (example_hooks slash_resolver False 500) (PyStr ''job-1'')
       = Inr False
   \<and> py_getitem (example_response 500) ''ResponseMetadata''
       = Inr (PyDict [(''HTTPStatusCode'', PyInt 500)])
   \<and> PyInt 500 \<noteq> PyInt 200
   \<and> outcome (execute (example_hooks slash_resolver False 500)
                (example_operator example_config ''increment'' True))
       = Inl (AirflowException
           (''Sagemaker Processing Job creation failed: '' @
            ''{'ProcessingJobArn': 'arn:job-1', 'ResponseMetadata': {'HTTPStatusCode': 500}}''))
   \<and> outcome (execute (example_hooks slash_resolver False 500)
                (example_operator example_config ''increment'' False))
       = Inl (AirflowException
           (''Sagemaker Processing Job creation failed: '' @
            ''{'ProcessingJobArn': 'arn:job-1', 'ResponseMetadata': {'HTTPStatusCode': 500}}''))"
proof -
  let ?h = "example_hooks slash_resolver False 500"
  have p: "preprocess_config ?h (example_operator example_config ''increment'' w)
      = ((example_operator example_config ''increment'' w)\<lparr>config := normalized_config\<rparr>, None)"
    for w by (rule preprocess_example)
  have n: "map_of (config ((example_operator example_config ''increment'' w)
              \<lparr>config := normalized_config\<rparr>)) ''ProcessingJobName'' = Some (PyStr ''job-1'')"
    for w by (simp add: normalized_job_name)
  have f: "find_processing_job_by_name ?h (PyStr ''job-1'') = Inr False"
    by (rule example_hooks_calls)
  have c: "create_processing_job ?h cfg w i m = Inr (example_response 500)" for cfg w i m
    by (rule example_hooks_calls)
  have m: "py_getitem (example_response 500) ''ResponseMetadata''
      = Inr (PyDict [(''HTTPStatusCode'', PyInt 500)])"
    by (rule example_response_status)
  have s: "py_getitem (PyDict [(''HTTPStatusCode'', PyInt 500)]) ''HTTPStatusCode''
      = Inr (PyInt 500)"
    by simp
  have d: "PyInt 500 \<noteq> PyInt 200" by simp
  from execute_submission_error [OF p n f c m s d, of True]
    execute_submission_error [OF p n f c m s d, of False] f m d
  show ?thesis
    by (simp add: example_response_format creation_failed_message_def)
qed






text \<open>
  Claim C6: constructing the operator with a policy other than \<open>increment\<close> and \<open>fail\<close>
  raises an \<open>AirflowException\<close> whose message contains the offending value, and no
  operator exists to execute; with one of the two values construction succeeds and stores
  the value.
\<close>

theorem init_validates_action:
  "(action \<notin> {''increment'', ''fail''} \<longrightarrow>
      init cfg conn wait plog interval max_time action
        = Inl (AirflowException (invalid_action_message action))
      \<and> sublist action (invalid_action_message action))
   \<and> (action \<in> {''increment'', ''fail''} \<longrightarrow>
      (\<exists>self. init cfg conn wait plog interval max_time action = Inr self
         \<and> action_if_job_exists self = action))"
  using sublist_invalid_action_message [of action]
  by (simp add: init_def)

theorem init_validates_action_witness:
  "''bogus'' \<notin> {''increment'', ''fail''}
   \<and> init example_config ''aws_default'' True True 30 None ''bogus''
       = Inl (AirflowException (invalid_action_message ''bogus''))
   \<and> sublist ''bogus'' (invalid_action_message ''bogus'')
   \<and> ''fail'' \<in> {''increment'', ''fail''}
   \<and> (\<exists>self. init example_config ''aws_default'' True True 30 None ''fail'' = Inr self
         \<and> action_if_job_exists self = ''fail'')"
  using init_validates_action [of "''bogus''" example_config "''aws_default''" True True 30 None]
    init_validates_action [of "''fail''" example_config "''aws_default''" True True 30 None]
  by simp

text \<open>
  Claim C7: when the run passes the duplicate-name guard and the create call returns a
  response with status 200, \<open>execute\<close> makes exactly one describe call, for the job name,
  and returns what that call returns under the single key \<open>Processing\<close> (or raises what
  it raises). The operator is arbitrary, so this holds for both values of
  \<open>wait_for_completion\<close>.
\<close>

theorem execute_describes_once:
  assumes "preprocess_config h self = (self', None)"
    and "map_of (config self') ''ProcessingJobName'' = Some name"
    and "find_processing_job_by_name h name = Inr False"
    and "create_processing_job h (config self') (wait_for_completion self')
           (check_interval self') (max_ingestion_time self') = Inr response"
    and "py_getitem response ''ResponseMetadata'' = Inr metadata"
    and "py_getitem metadata ''HTTPStatusCode'' = Inr (PyInt 200)"
  shows "filter is_describe (calls (execute h self)) = [Describe_processing_job name]
       \<and> outcome (execute h self) =
           (case describe_processing_job h name of
              Inl e \<Rightarrow> Inl e
            | Inr description \<Rightarrow> Inr (PyDict [(''Processing'', description)]))"
  using assms by (simp add: execute_def split: sum.splits)

theorem execute_describes_once_witness:
  "find_processing_job_by_name (example_hooks slash_resolver False 200) (PyStr ''job-1'')
       = Inr False
   \<and> py_getitem (example_response 200) ''ResponseMetadata''
       = Inr (PyDict [(''HTTPStatusCode'', PyInt 200)])
   \<and> filter is_describe (calls (execute (example_hooks slash_resolver False 200)
                (example_operator example_config ''increment'' False)))
       = [Describe_processing_job (PyStr ''job-1'')]
   \<and> outcome (execute (example_hooks slash_resolver False 200)
                (example_operator example_config ''increment'' False))
       = Inr (PyDict [(''Processing'', example_description (PyStr ''job-1''))])
   \<and> outcome (execute (example_hooks slash_resolver False 200)
                (example_operator example_config ''increment'' True))
       = Inr (PyDict [(''Processing'', example_description (PyStr ''job-1''))])"
proof -
  let ?h = "example_hooks slash_resolver False 200"
  have p: "preprocess_config ?h (example_operator example_config ''increment'' w)
      = ((example_operator example_config ''increment'' w)\<lparr>config := normalized_config\<rparr>, None)"
    for w by (rule preprocess_example)
  have n: "map_of (config ((example_operator example_config ''increment'' w)
              \<lparr>config := normalized_config\<rparr>)) ''ProcessingJobName'' = Some (PyStr ''job-1'')"
    for w by (simp add: normalized_job_name)
  have f: "find_processing_job_by_name ?h (PyStr ''job-1'') = Inr False"
    by (rule example_hooks_calls)
  have c: "create_processing_job ?h cfg w i m = Inr (example_response 200)" for cfg w i m
    by (rule example_hooks_calls)
  have m: "py_getitem (example_response 200) ''ResponseMetadata''
      = Inr (PyDict [(''HTTPStatusCode'', PyInt 200)])"
    by (rule example_response_status)
  have s: "py_getitem (PyDict [(''HTTPStatusCode'', PyInt 200)]) ''HTTPStatusCode''
      = Inr (PyInt 200)"
    by simp
  from execute_describes_once [OF p n f c m s, of False]
    execute_describes_once [OF p n f c m s, of True] f m
  show ?thesis
    by (simp add: example_hooks_calls)
qed

text \<open>
  Claim C8: in every run the calls are a prefix of: normalization, the existence check for
  the job name, the create call on the normalized configuration, the describe call. So
  the existence check comes after normalization and before the create call, there is at
  most one create call, and a normalization that raises is followed by no call at all.
\<close>

theorem execute_call_order:
  "(\<exists>name. prefix (calls (execute h self))
       [Preprocess_config,
        Find_processing_job_by_name name,
        Create_processing_job (config (fst (preprocess_config h self)))
          (wait_for_completion self) (check_interval self) (max_ingestion_time self),
        Describe_processing_job name])
   \<and> calls (execute h self) \<noteq> []
   \<and> length (filter is_create (calls (execute h self))) \<le> 1
   \<and> (snd (preprocess_config h self) \<noteq> None \<longrightarrow> calls (execute h self) = [Preprocess_config])"
proof -
  obtain self' r where p: "preprocess_config h self = (self', r)"
    by (cases "preprocess_config h self")
  from preprocess_config_keeps [of h self] p
  have c: "self' = self\<lparr>config := config self'\<rparr>" by simp
  have w: "wait_for_completion self' = wait_for_completion self"
    "check_interval self' = check_interval self"
    "max_ingestion_time self' = max_ingestion_time self"
    by (subst c, simp)+
  show ?thesis
    by (cases r)
       (auto simp: execute_def p w Let_def split: option.splits sum.splits)
qed

theorem execute_call_order_witness:
  "snd (preprocess_config (example_hooks slash_resolver False 200)
          (example_operator uncastable_config ''increment'' True)) \<noteq> None
   \<and> calls (execute (example_hooks slash_resolver False 200)
              (example_operator uncastable_config ''increment'' True)) = [Preprocess_config]
   \<and> calls (execute (example_hooks slash_resolver False 200)
              (example_operator example_config ''increment'' True))
       = [Preprocess_config,
          Find_processing_job_by_name (PyStr ''job-1''),
          Create_processing_job normalized_config True 30 None,
          Describe_processing_job (PyStr ''job-1'')]"
proof -
  have "calls (execute (example_hooks slash_resolver False 200)
              (example_operator example_config ''increment'' True))
       = [Preprocess_config,
          Find_processing_job_by_name (PyStr ''job-1''),
          Create_processing_job normalized_config True 30 None,
          Describe_processing_job (PyStr ''job-1'')]"
    by (simp add: execute_def preprocess_example normalized_job_name example_hooks_calls
          example_response_status)
       (simp add: example_operator_def)
  with execute_call_order [of "example_hooks slash_resolver False 200"
      "example_operator uncastable_config ''increment'' True"]
  show ?thesis
    by (simp add: preprocess_uncastable)
qed

text \<open>
  Claim C9: when \<open>execute\<close> aborts because a job with the configured name exists, the
  message of the error contains the string stored under \<open>ProcessingJobName\<close>, verbatim.
\<close>

theorem duplicate_error_names_job:
  assumes "preprocess_config h self = (self', None)"
    and "map_of (config self') ''ProcessingJobName'' = Some (PyStr job_name)"
    and "find_processing_job_by_name h (PyStr job_name) = Inr True"
  shows "outcome (execute h self) = Inl (AirflowException (job_exists_message job_name))
       \<and> sublist job_name (job_exists_message job_name)"
  using assms sublist_job_exists_message [of job_name] by (simp add: execute_def)

theorem duplicate_error_names_job_witness:
  "map_of normalized_config ''ProcessingJobName'' = Some (PyStr ''job-1'')
   \<and> find_processing_job_by_name (example_hooks prefixing_resolver True 200) (PyStr ''job-1'')
       = Inr True
   \<and> outcome (execute (example_hooks prefixing_resolver True 200)
                (example_operator example_config ''fail'' False))
       = Inl (AirflowException (job_exists_message ''job-1''))
   \<and> sublist ''job-1'' (job_exists_message ''job-1'')"
proof -
  let ?h = "example_hooks prefixing_resolver True 200"
  let ?self = "example_operator example_config ''fail'' False"
  have p: "preprocess_config ?h ?self = (?self\<lparr>config := normalized_config\<rparr>, None)"
    by (rule preprocess_example_prefixing)
  have n: "map_of (config (?self\<lparr>config := normalized_config\<rparr>)) ''ProcessingJobName''
             = Some (PyStr ''job-1'')"
    by (simp add: normalized_job_name)
  have f: "find_processing_job_by_name ?h (PyStr ''job-1'') = Inr True"
    by (rule example_hooks_calls)
  from duplicate_error_names_job [OF p n f] f show ?thesis
    by (simp add: normalized_job_name)
qed

text \<open>
  Claim C10: for a configuration without a top-level \<open>ProcessingJobName\<close> key,
  \<open>execute\<close> raises with normalization as its only call: no existence check, create or
  describe call is made, and when normalization has returned, the exception is the
  \<open>KeyError\<close> of the lookup. With the key present the lookup cannot fail: unless
  normalization raises, the run goes on to the existence check.
\<close>

theorem execute_without_job_name:
  "(map_of (config self) ''ProcessingJobName'' = None \<longrightarrow>
      isl (outcome (execute h self))
      \<and> calls (execute h self) = [Preprocess_config]
      \<and> remote_calls (calls (execute h self)) = []
      \<and> (snd (preprocess_config h self) = None \<longrightarrow>
           outcome (execute h self) = Inl (KeyError ''ProcessingJobName'')))
   \<and> (map_of (config self) ''ProcessingJobName'' \<noteq> None \<longrightarrow>
      snd (preprocess_config h self) \<noteq> None
      \<or> (\<exists>name. map_of (config (fst (preprocess_config h self))) ''ProcessingJobName''
                   = Some name
            \<and> prefix [Preprocess_config, Find_processing_job_by_name name]
                 (calls (execute h self))))"
proof -
  obtain self' r where p: "preprocess_config h self = (self', r)"
    by (cases "preprocess_config h self")
  have "dom (map_of (config self')) = dom (map_of (config self))"
    using preprocess_config_dom [of h self] p by simp
  then have key: "map_of (config self') ''ProcessingJobName'' = None
      \<longleftrightarrow> map_of (config self) ''ProcessingJobName'' = None"
    by (metis domIff)
  show ?thesis
  proof (cases "map_of (config self) ''ProcessingJobName''")
    case None
    with key have "map_of (config self') ''ProcessingJobName'' = None" by simp
    with None p show ?thesis
      by (cases r) (simp_all add: execute_def remote_calls_def)
  next
    case (Some name0)
    with key obtain name where "map_of (config self') ''ProcessingJobName'' = Some name"
      by auto
    with Some p show ?thesis
      by (cases r)
         (auto simp: execute_def Let_def split: sum.splits)
  qed
qed

theorem execute_without_job_name_witness:
  "map_of (config (example_operator [] ''increment'' True)) ''ProcessingJobName'' = None
   \<and> snd (preprocess_config (example_hooks slash_resolver False 200)
            (example_operator [] ''increment'' True)) = None
   \<and> outcome (execute (example_hooks slash_resolver False 200)
                (example_operator [] ''increment'' True))
       = Inl (KeyError ''ProcessingJobName'')
   \<and> calls (execute (example_hooks slash_resolver False 200)
              (example_operator [] ''increment'' True)) = [Preprocess_config]
   \<and> map_of (config (example_operator example_config ''increment'' True))
        ''ProcessingJobName'' \<noteq> None
   \<and> snd (preprocess_config (example_hooks slash_resolver False 200)
            (example_operator example_config ''increment'' True)) = None
   \<and> prefix [Preprocess_config, Find_processing_job_by_name (PyStr ''job-1'')]
        (calls (execute (example_hooks slash_resolver False 200)
                 (example_operator example_config ''increment'' True)))"
  using execute_without_job_name [of "example_operator [] ''increment'' True"
      "example_hooks slash_resolver False 200"]
    execute_without_job_name [of "example_operator example_config ''increment'' True"
      "example_hooks slash_resolver False 200"]
  by (simp add: preprocess_empty preprocess_example normalized_job_name)
     (simp add: example_operator_def example_config_def)

end
